theory Spec2Isabelle
  imports Main "HOL-Library.Sublist"
begin

section \<open>Strings as the source uses them\<close>

text \<open>
  JavaScript strings are modelled as \<open>string\<close> (a list of characters). Only the string
  operations the authentication core calls are given: \<open>split\<close> with a one-character
  separator, \<open>trim\<close>, \<open>startsWith\<close>, \<open>toLowerCase\<close> and \<open>toUpperCase\<close>.
\<close>

text \<open>
  \<open>s.split(c)\<close>: the pieces between the occurrences of \<open>c\<close>, in order. The result is
  never empty: a string without \<open>c\<close> (the empty string too) gives one piece.
\<close>

fun split_on :: "char \<Rightarrow> string \<Rightarrow> string list" where
  "split_on c [] = [[]]"
| "split_on c (x # xs) =
     (if x = c then [] # split_on c xs
      else (case split_on c xs of
              [] \<Rightarrow> [[x]]
            | y # ys \<Rightarrow> (x # y) # ys))"

text \<open>
  The white space \<open>trim\<close> removes. A header value holds code points below 256 only,
  and the white space of JavaScript among them is tab, line feed, vertical tab, form
  feed, carriage return, the space and the no-break space.
\<close>

definition is_space :: "char \<Rightarrow> bool" where
  "is_space c \<longleftrightarrow>
     c \<in> {CHR 0x09, CHR 0x0A, CHR 0x0B, CHR 0x0C, CHR 0x0D, CHR '' '', CHR 0xA0}"

definition trim :: "string \<Rightarrow> string" where
  "trim s = rev (dropWhile is_space (rev (dropWhile is_space s)))"

definition startsWith :: "string \<Rightarrow> string \<Rightarrow> bool" where
  "startsWith s p \<longleftrightarrow> prefix p s"

text \<open>
  Case conversion of the ASCII letters. The handlers apply it to e-mail addresses that
  have passed the format check.
\<close>

definition lower_char :: "char \<Rightarrow> char" where
  "lower_char c =
     (let n = (of_char c :: nat) in if 65 \<le> n \<and> n \<le> 90 then char_of (n + 32) else c)"


definition toLowerCase :: "string \<Rightarrow> string" where
  "toLowerCase s = map lower_char s"



section \<open>Session tokens\<close>

text \<open>The interface \<open>JwtPayload\<close> of \<open>lib/auth/jwt.ts\<close>.\<close>

record JwtPayload =
  userId :: string
  email :: string
  name :: "string option"

text \<open>
  What a verifier hands back: the claims that were signed, with the two registered
  claims \<open>iat\<close> and \<open>exp\<close> the signer added (both in seconds).
\<close>

record token_payload =
  claims :: JwtPayload
  iat :: nat
  expires :: nat

text \<open>The three ways a verification fails; each is an exception of the library.\<close>

datatype jwt_error = Malformed | SignatureMismatch | Expired

text \<open>
  A verifier is the library call with the secret and the clock already supplied:
  \<open>jwtVerify(token, secret)\<close> of jose, \<open>jwt.verify(token, secret)\<close> of jsonwebtoken.
  It returns the payload or throws.
\<close>

type_synonym verifier = "string \<Rightarrow> jwt_error + token_payload"


section \<open>Session extraction (\<open>lib/auth/jwt.ts\<close>, \<open>lib/auth.ts\<close>)\<close>

text \<open>
  The record \<open>cookies\<close> built by the \<open>reduce\<close>: a map from keys to values, where
  \<open>None\<close> is what JavaScript reads as \<open>undefined\<close> (a key never written, or written with
  the value \<open>undefined\<close>). The only key the callers read is \<open>auth-token\<close>.
\<close>

type_synonym cookie_jar = "string \<Rightarrow> string option"

text \<open>
  One step of the \<open>reduce\<close>:
  \<^verbatim>\<open>const [key, value] = cookie.trim().split('='); acc[key] = value; return acc;\<close>
  The destructuring takes the first two pieces of the split and drops the others; with
  one piece only, \<open>value\<close> is \<open>undefined\<close>.
\<close>

definition cookie_step :: "cookie_jar \<Rightarrow> string \<Rightarrow> cookie_jar" where
  "cookie_step acc cookie =
     (case split_on CHR ''='' (trim cookie) of
        [] \<Rightarrow> acc
      | [key] \<Rightarrow> acc(key := None)
      | key # val # _ \<Rightarrow> acc(key \<mapsto> val))"

definition parse_cookies :: "string \<Rightarrow> cookie_jar" where
  "parse_cookies cookieHeader = foldl cookie_step Map.empty (split_on CHR '';'' cookieHeader)"

text \<open>
  The part of the three extraction functions that is the same text in each: from
  \<open>request.headers.get('cookie')\<close> to the token handed to the verifier. \<open>!cookieHeader\<close>
  and \<open>!token\<close> hold for \<open>null\<close>/\<open>undefined\<close> and for the empty string.
\<close>

definition token_of_header :: "string option \<Rightarrow> string option" where
  "token_of_header cookieHeader =
     (case cookieHeader of
        None \<Rightarrow> None
      | Some h \<Rightarrow>
          if h = [] then None
          else (case parse_cookies h ''auth-token'' of
                  None \<Rightarrow> None
                | Some token \<Rightarrow> if token = [] then None else Some token))"

text \<open>
  The body of the \<open>try\<close> block of each function: \<open>Inl\<close> is an exception leaving the
  block, \<open>Inr\<close> its \<open>return\<close>.
\<close>

definition getUserIdFromToken_try :: "verifier \<Rightarrow> string option \<Rightarrow> jwt_error + string option" where
  "getUserIdFromToken_try jwtVerify cookieHeader =
     (case token_of_header cookieHeader of
        None \<Rightarrow> Inr None
      | Some token \<Rightarrow>
          (case jwtVerify token of
             Inl e \<Rightarrow> Inl e
           | Inr payload \<Rightarrow> Inr (Some (userId (claims payload)))))"

definition getToken_try :: "verifier \<Rightarrow> string option \<Rightarrow> jwt_error + token_payload option" where
  "getToken_try jwtVerify cookieHeader =
     (case token_of_header cookieHeader of
        None \<Rightarrow> Inr None
      | Some token \<Rightarrow>
          (case jwtVerify token of
             Inl e \<Rightarrow> Inl e
           | Inr payload \<Rightarrow> Inr (Some payload)))"

text \<open>\<open>try { ... } catch (error) { console.error(...); return null; }\<close>\<close>

definition catch_null :: "jwt_error + 'a option \<Rightarrow> 'a option" where
  "catch_null r = (case r of Inl e \<Rightarrow> None | Inr v \<Rightarrow> v)"

text \<open>
  The three functions. The argument \<open>cookieHeader\<close> is \<open>request.headers.get('cookie')\<close>,
  \<open>None\<close> when the request has no such header. \<open>getUserIdFromToken\<close> and \<open>getToken\<close>
  verify with jose, \<open>getUserIdFromTokenSync\<close> with jsonwebtoken.
\<close>

definition getUserIdFromToken :: "verifier \<Rightarrow> string option \<Rightarrow> string option" where
  "getUserIdFromToken jwtVerify cookieHeader =
     catch_null (getUserIdFromToken_try jwtVerify cookieHeader)"

definition getUserIdFromTokenSync :: "verifier \<Rightarrow> string option \<Rightarrow> string option" where
  "getUserIdFromTokenSync jwt_verify cookieHeader =
     catch_null (getUserIdFromToken_try jwt_verify cookieHeader)"

definition getToken :: "verifier \<Rightarrow> string option \<Rightarrow> token_payload option" where
  "getToken jwtVerify cookieHeader = catch_null (getToken_try jwtVerify cookieHeader)"

section \<open>The middleware (\<open>middleware.ts\<close>)\<close>

definition publicRoutes :: "string list" where
  "publicRoutes =
     [''/'', ''/login'', ''/register'', ''/api/auth/login'', ''/api/auth/register'',
      ''/api/auth/logout'', ''/api/health'']"

definition protectedRoutes :: "string list" where
  "protectedRoutes = [''/dashboard'', ''/workspace'', ''/project'', ''/profile'', ''/settings'']"

text \<open>
  A URL, kept in parts: the origin, the path and the query parameters in order. The
  serialised text (with its percent-encoding) is the URL library's and is not modelled.
\<close>

record url =
  origin :: string
  pathname :: string
  searchParams :: "(string \<times> string) list"

text \<open>
  \<open>new URL(path, base)\<close> for an absolute path: the origin of the base, the given path, no
  query.
\<close>

definition new_URL :: "string \<Rightarrow> url \<Rightarrow> url" where
  "new_URL path base = \<lparr>origin = origin base, pathname = path, searchParams = []\<rparr>"

text \<open>
  \<open>searchParams.set(k, v)\<close> and \<open>headers.set(k, v)\<close>: the first pair named \<open>k\<close> takes the
  value and the later ones go; without such a pair, the new one is appended.
\<close>

fun set_pair :: "string \<Rightarrow> string \<Rightarrow> (string \<times> string) list \<Rightarrow> (string \<times> string) list" where
  "set_pair k v [] = [(k, v)]"
| "set_pair k v ((k', v') # ps) =
     (if k' = k then (k, v) # filter (\<lambda>p. fst p \<noteq> k) ps else (k', v') # set_pair k v ps)"

text \<open>
  The request as the middleware reads it: \<open>request.nextUrl.pathname\<close>, \<open>request.url\<close> and
  \<open>request.cookies\<close>, where \<open>cookie req k\<close> is \<open>request.cookies.get(k)?.value\<close>
  (the framework has parsed the header).
\<close>

record next_request =
  nextUrl_pathname :: string
  request_url :: url
  cookie :: "string \<Rightarrow> string option"

text \<open>
  The response: \<open>NextResponse.next()\<close> or \<open>NextResponse.redirect(url)\<close>, the headers set
  on it and the cookies it tells the client to delete.
\<close>

datatype response_kind = Next | Redirect url

record next_response =
  kind :: response_kind
  headers :: "(string \<times> string) list"
  deleted_cookies :: "string list"

definition NextResponse_next :: next_response where
  "NextResponse_next = \<lparr>kind = Next, headers = [], deleted_cookies = []\<rparr>"

definition NextResponse_redirect :: "url \<Rightarrow> next_response" where
  "NextResponse_redirect u = \<lparr>kind = Redirect u, headers = [], deleted_cookies = []\<rparr>"

text \<open>
  \<open>publicRoutes.some(route => pathname === route || pathname.startsWith(route + '/'))\<close>
  and \<open>protectedRoutes.some(route => pathname.startsWith(route))\<close>, for any two lists.
\<close>

definition isPublicRoute_in :: "string list \<Rightarrow> string \<Rightarrow> bool" where
  "isPublicRoute_in pub p = list_ex (\<lambda>route. p = route \<or> startsWith p (route @ ''/'')) pub"

definition isProtectedRoute_in :: "string list \<Rightarrow> string \<Rightarrow> bool" where
  "isProtectedRoute_in prot p = list_ex (\<lambda>route. startsWith p route) prot"

text \<open>
  \<open>headers.set(name, value)\<close> on the headers of a response, which follow the Fetch
  standard: the value loses its leading and trailing HTTP white space (tab, line feed,
  carriage return, space); when a NUL, a line feed or a carriage return is left in it,
  the call throws a \<open>TypeError\<close>, which is \<open>None\<close> here. Otherwise the value that is
  stored is the one without the white space around it. Strings hold code points below
  256 in this development; a value with a higher code point makes the call throw as
  well and cannot be written here.
\<close>

definition is_http_whitespace :: "char \<Rightarrow> bool" where
  "is_http_whitespace c \<longleftrightarrow> c \<in> {CHR 0x09, CHR 0x0A, CHR 0x0D, CHR '' ''}"

definition header_value :: "string \<Rightarrow> string option" where
  "header_value v =
     (let n = rev (dropWhile is_http_whitespace (rev (dropWhile is_http_whitespace v)))
      in if CHR 0x00 \<in> set n \<or> CHR 0x0A \<in> set n \<or> CHR 0x0D \<in> set n then None
         else Some n)"

definition headers_set ::
  "string \<Rightarrow> string \<Rightarrow> (string \<times> string) list \<Rightarrow> (string \<times> string) list option" where
  "headers_set k v hs =
     (case header_value v of
        None \<Rightarrow> None
      | Some n \<Rightarrow> Some (set_pair k n hs))"

text \<open>
  The \<open>catch\<close> block of \<open>middleware\<close>: redirect to \<open>/login\<close> and delete the cookie.
\<close>

definition middleware_catch :: "next_request \<Rightarrow> next_response" where
  "middleware_catch request =
     (NextResponse_redirect (new_URL ''/login'' (request_url request)))
       \<lparr>deleted_cookies := [''auth-token'']\<rparr>"

text \<open>
  The function \<open>middleware\<close>, with the two route lists and the verifier
  (\<open>jwtVerify(token, secret)\<close> of jose) as arguments. The \<open>catch\<close> takes every exception
  of the \<open>try\<close> block: those of the verifier and those of the two \<open>headers.set\<close> calls.
\<close>

definition middleware_with :: "string list \<Rightarrow> string list \<Rightarrow> verifier \<Rightarrow> next_request \<Rightarrow> next_response" where
  "middleware_with pub prot jwtVerify request =
     (let p = nextUrl_pathname request in
      if isPublicRoute_in pub p then NextResponse_next
      else if \<not> isProtectedRoute_in prot p then NextResponse_next
      else
        (case cookie request ''auth-token'' of
           None \<Rightarrow>
             NextResponse_redirect
               ((new_URL ''/login'' (request_url request))
                  \<lparr>searchParams := set_pair ''redirect'' p []\<rparr>)
         | Some token \<Rightarrow>
             if token = [] then
               NextResponse_redirect
                 ((new_URL ''/login'' (request_url request))
                    \<lparr>searchParams := set_pair ''redirect'' p []\<rparr>)
             else
               (case jwtVerify token of
                  Inr payload \<Rightarrow>
                    (case headers_set ''x-user-id'' (userId (claims payload))
                            (headers NextResponse_next) of
                       None \<Rightarrow> middleware_catch request
                     | Some h1 \<Rightarrow>
                         (case headers_set ''x-user-email'' (email (claims payload)) h1 of
                            None \<Rightarrow> middleware_catch request
                          | Some h2 \<Rightarrow> NextResponse_next\<lparr>headers := h2\<rparr>))
                | Inl e \<Rightarrow> middleware_catch request)))"

definition middleware :: "verifier \<Rightarrow> next_request \<Rightarrow> next_response" where
  "middleware = middleware_with publicRoutes protectedRoutes"

section \<open>The token codec\<close>

text \<open>
  Modelled from the spec: the two token libraries (jsonwebtoken's \<open>sign\<close> and \<open>verify\<close>,
  jose's \<open>jwtVerify\<close>) are not part of the repository. The model follows the spec's
  Token Codec: the wire format is \<open>header.claims.signature\<close>, three segments joined by
  dots; \<open>issue\<close> encodes the header, the claims with the expiry and a signature over the
  encoded header and claims; \<open>verify\<close> decodes, recomputes the signature, rejects a
  mismatch, rejects when the current time has reached the expiry, and returns the claims
  otherwise. The encodings of the segments and the keyed hash are arguments, since the
  spec fixes neither.
\<close>

record wire_codec =
  enc_header :: "string \<Rightarrow> string"
  dec_header :: "string \<Rightarrow> string option"
  enc_claims :: "token_payload \<Rightarrow> string"
  dec_claims :: "string \<Rightarrow> token_payload option"
  mac :: "string \<Rightarrow> string \<Rightarrow> string"

text \<open>The options \<open>createToken\<close> and the login handler pass to \<open>jwt.sign\<close>.\<close>

record sign_options =
  expiresIn :: nat
  algorithm :: string

text \<open>
  Modelled from the spec: \<open>issue(claims, secret)\<close>, at the time \<open>now\<close> in seconds.
\<close>

definition jwt_sign :: "wire_codec \<Rightarrow> JwtPayload \<Rightarrow> string \<Rightarrow> sign_options \<Rightarrow> nat \<Rightarrow> string" where
  "jwt_sign K c secret opts now =
     (let h = enc_header K (algorithm opts);
          p = enc_claims K \<lparr>claims = c, iat = now, expires = now + expiresIn opts\<rparr>;
          s = mac K secret (h @ ''.'' @ p)
      in h @ ''.'' @ p @ ''.'' @ s)"

text \<open>
  Modelled from the spec: \<open>verify(token, secret)\<close>, at the time \<open>now\<close> in seconds. The
  one algorithm is HS256.
\<close>

definition jwt_verify :: "wire_codec \<Rightarrow> string \<Rightarrow> nat \<Rightarrow> verifier" where
  "jwt_verify K secret now token =
     (case split_on CHR ''.'' token of
        [h, p, s] \<Rightarrow>
          (case (dec_header K h, dec_claims K p) of
             (Some a, Some payload) \<Rightarrow>
               if a \<noteq> ''HS256'' then Inl Malformed
               else if mac K secret (h @ ''.'' @ p) \<noteq> s then Inl SignatureMismatch
               else if expires payload \<le> now then Inl Expired
               else Inr payload
           | _ \<Rightarrow> Inl Malformed)
      | _ \<Rightarrow> Inl Malformed)"

text \<open>
  \<open>createToken\<close> of \<open>lib/auth/jwt.ts\<close>. Its argument has the fields \<open>id\<close>, \<open>email\<close> and
  the optional \<open>name\<close>; \<open>'24h'\<close> is \<open>24 * 60 * 60\<close> seconds.
\<close>

record token_user =
  tu_id :: string
  tu_email :: string
  tu_name :: "string option"

definition createToken :: "wire_codec \<Rightarrow> string \<Rightarrow> nat \<Rightarrow> token_user \<Rightarrow> string" where
  "createToken K secret now user =
     jwt_sign K \<lparr>userId = tu_id user, email = tu_email user, name = tu_name user\<rparr> secret
       \<lparr>expiresIn = 24 * 60 * 60, algorithm = ''HS256''\<rparr> now"

text \<open>The characters of a base64url segment.\<close>

definition is_b64url :: "char \<Rightarrow> bool" where
  "is_b64url c \<longleftrightarrow>
     (let n = (of_char c :: nat) in
      (65 \<le> n \<and> n \<le> 90) \<or> (97 \<le> n \<and> n \<le> 122) \<or> (48 \<le> n \<and> n \<le> 57)
      \<or> c = CHR ''-'' \<or> c = CHR ''_'')"

text \<open>
  What the two libraries share for one payload: the header and the payload decode to
  what was encoded, and the three segments are base64url text.
\<close>

definition wire_ok :: "wire_codec \<Rightarrow> string \<Rightarrow> token_payload \<Rightarrow> bool" where
  "wire_ok K secret payload \<longleftrightarrow>
     dec_header K (enc_header K ''HS256'') = Some ''HS256''
     \<and> dec_claims K (enc_claims K payload) = Some payload
     \<and> list_all is_b64url (enc_header K ''HS256'')
     \<and> list_all is_b64url (enc_claims K payload)
     \<and> list_all is_b64url
          (mac K secret (enc_header K ''HS256'' @ ''.'' @ enc_claims K payload))"


section \<open>The login and registration handlers\<close>

text \<open>JSON values: request bodies as \<open>request.json()\<close> gives them, response bodies.\<close>

datatype json =
  JNull | JBool bool | JNum int | JStr string | JArr "json list" | JObj "(string \<times> json) list"

text \<open>Reading a property of a parsed object: of two equal keys the later one counts.\<close>

definition obj_get :: "(string \<times> json) list \<Rightarrow> string \<Rightarrow> json option" where
  "obj_get kvs k = map_of (rev kvs) k"

text \<open>The options of \<open>response.cookies.set\<close>.\<close>

record set_cookie =
  cookie_name :: string
  cookie_value :: string
  httpOnly :: bool
  secure :: bool
  sameSite :: string
  maxAge :: nat
  path :: string

record http_response =
  status :: nat
  body :: json
  cookies_set :: "set_cookie list"

definition NextResponse_json :: "json \<Rightarrow> nat \<Rightarrow> http_response" where
  "NextResponse_json b s = \<lparr>status = s, body = b, cookies_set = []\<rparr>"

text \<open>
  A validation issue of zod: the path of the field and the message. (The library's
  issues carry a code and further details of the check as well.)
\<close>

datatype zod_issue = ZodIssue "string list" string

fun issue_json :: "zod_issue \<Rightarrow> json" where
  "issue_json (ZodIssue field_path msg) =
     JObj [(''path'', JArr (map JStr field_path)), (''message'', JStr msg)]"

fun json_type :: "json \<Rightarrow> string" where
  "json_type JNull = ''null''"
| "json_type (JBool _) = ''boolean''"
| "json_type (JNum _) = ''number''"
| "json_type (JStr _) = ''string''"
| "json_type (JArr _) = ''array''"
| "json_type (JObj _) = ''object''"

text \<open>
  \<open>z.string()\<close> followed by one check with its message: \<open>.email(msg)\<close> or \<open>.min(n, msg)\<close>.
\<close>

definition zod_string :: "string \<Rightarrow> (string \<Rightarrow> bool) \<Rightarrow> string \<Rightarrow> json option \<Rightarrow> zod_issue list + string" where
  "zod_string field check msg v =
     (case v of
        None \<Rightarrow> Inl [ZodIssue [field] ''Required'']
      | Some (JStr s) \<Rightarrow> if check s then Inr s else Inl [ZodIssue [field] msg]
      | Some j \<Rightarrow> Inl [ZodIssue [field] (''Expected string, received '' @ json_type j)])"

definition issues_of :: "zod_issue list + 'a \<Rightarrow> zod_issue list" where
  "issues_of r = (case r of Inl is \<Rightarrow> is | Inr _ \<Rightarrow> [])"

text \<open>
  \<open>loginSchema.parse(body)\<close>. The format check of \<open>.email()\<close> is the library's regular
  expression, an argument here.
\<close>

definition loginSchema_parse :: "(string \<Rightarrow> bool) \<Rightarrow> json \<Rightarrow> zod_issue list + (string \<times> string)" where
  "loginSchema_parse isEmail b =
     (case b of
        JObj kvs \<Rightarrow>
          (let e = zod_string ''email'' isEmail ''Invalid email address'' (obj_get kvs ''email'');
               p = zod_string ''password'' (\<lambda>s. 1 \<le> length s) ''Password is required''
                     (obj_get kvs ''password'')
           in (case (e, p) of
                 (Inr em, Inr pw) \<Rightarrow> Inr (em, pw)
               | _ \<Rightarrow> Inl (issues_of e @ issues_of p)))
      | j \<Rightarrow> Inl [ZodIssue [] (''Expected object, received '' @ json_type j)])"


text \<open>
  The rows the data layer returns. \<open>createdAt\<close> is the text the date has in a JSON body.
\<close>

record AspNetUser =
  asp_id :: string
  userName :: string
  normalizedUserName :: string
  asp_email :: string
  normalizedEmail :: string
  passwordHash :: "string option"
  securityStamp :: "string option"
  emailConfirmed :: bool
  twoFactorEnabled :: bool
  lockoutEnabled :: bool
  accessFailedCount :: nat

record User =
  user_id :: string
  user_email :: string
  user_name :: "string option"
  user_createdAt :: string
  aspNetUser :: "AspNetUser option"

text \<open>
  What leaves a \<open>try\<close> block of a handler as an exception: a \<open>ZodError\<close> with its issues,
  or anything else (a body that is not JSON, a failure of the data layer or of the
  signing).
\<close>

datatype handler_error = ZodError "zod_issue list" | OtherError

definition user_json :: "User \<Rightarrow> json" where
  "user_json user =
     JObj [(''id'', JStr (user_id user)),
           (''email'', JStr (user_email user)),
           (''name'', (case user_name user of None \<Rightarrow> JNull | Some n \<Rightarrow> JStr n)),
           (''createdAt'', JStr (user_createdAt user))]"

text \<open>The \<open>catch\<close> block, the same in both handlers.\<close>

definition handler_catch :: "handler_error + http_response \<Rightarrow> http_response" where
  "handler_catch r =
     (case r of
        Inr response \<Rightarrow> response
      | Inl (ZodError is) \<Rightarrow>
          NextResponse_json
            (JObj [(''error'', JStr ''Validation failed''), (''details'', JArr (map issue_json is))])
            400
      | Inl OtherError \<Rightarrow> NextResponse_json (JObj [(''error'', JStr ''Internal server error'')]) 500)"

text \<open>
  The environment of the login handler: the format check of zod, \<open>db.user.findUnique\<close>
  by email with the credential row included, \<open>bcrypt.compare\<close>, \<open>jwt.sign\<close> with the
  secret and the clock supplied, and whether \<open>NODE_ENV\<close> is \<open>production\<close>. A \<open>None\<close>
  from \<open>findUnique_email\<close> or \<open>sign\<close> is an exception.
\<close>

record login_env =
  isEmail :: "string \<Rightarrow> bool"
  findUnique_email :: "string \<Rightarrow> User option option"
  bcrypt_compare :: "string \<Rightarrow> string \<Rightarrow> bool"
  sign :: "JwtPayload \<Rightarrow> sign_options \<Rightarrow> string option"
  node_env :: "string option"

text \<open>
  The \<open>try\<close> block of \<open>POST\<close> in \<open>api/auth/login/route.ts\<close>. The argument is the result
  of \<open>request.json()\<close>, \<open>None\<close> when the body is not JSON.
\<close>

definition login_try :: "login_env \<Rightarrow> json option \<Rightarrow> handler_error + http_response" where
  "login_try E request_json =
     (case request_json of
        None \<Rightarrow> Inl OtherError
      | Some b \<Rightarrow>
     (case loginSchema_parse (isEmail E) b of
        Inl is \<Rightarrow> Inl (ZodError is)
      | Inr (em, password) \<Rightarrow>
     (case findUnique_email E (toLowerCase em) of
        None \<Rightarrow> Inl OtherError
      | Some None \<Rightarrow>
          Inr (NextResponse_json (JObj [(''error'', JStr ''Invalid email or password'')]) 401)
      | Some (Some user) \<Rightarrow>
     (case aspNetUser user of
        None \<Rightarrow>
          Inr (NextResponse_json (JObj [(''error'', JStr ''Invalid email or password'')]) 401)
      | Some asp \<Rightarrow>
          if \<not> bcrypt_compare E password (case passwordHash asp of None \<Rightarrow> [] | Some h \<Rightarrow> h)
          then Inr (NextResponse_json (JObj [(''error'', JStr ''Invalid email or password'')]) 401)
          else
            (case sign E \<lparr>userId = user_id user, email = user_email user, name = user_name user\<rparr>
                    \<lparr>expiresIn = 24 * 60 * 60, algorithm = ''HS256''\<rparr> of
               None \<Rightarrow> Inl OtherError
             | Some token \<Rightarrow>
                 Inr ((NextResponse_json
                         (JObj [(''message'', JStr ''Login successful''), (''user'', user_json user)])
                         200)
                       \<lparr>cookies_set :=
                          [\<lparr>cookie_name = ''auth-token'', cookie_value = token, httpOnly = True,
                            secure = (node_env E = Some ''production''), sameSite = ''strict'',
                            maxAge = 24 * 60 * 60, path = ''/''\<rparr>]\<rparr>))))))"

definition login_POST :: "login_env \<Rightarrow> json option \<Rightarrow> http_response" where
  "login_POST E request_json = handler_catch (login_try E request_json)"




section \<open>Notions used to state the properties\<close>

text \<open>
  The key of one piece of a cookie header, as \<open>cookie_step\<close> reads it: the text before
  the first \<open>=\<close> of the trimmed piece.
\<close>

definition cookie_key :: "string \<Rightarrow> string" where
  "cookie_key piece = (case split_on CHR ''='' (trim piece) of [] \<Rightarrow> [] | key # _ \<Rightarrow> key)"

text \<open>
  The value of a cookie as the spec describes the parse of the header: the pieces
  between the \<open>;\<close>, trimmed, each split on its first \<open>=\<close> only, the value being the
  whole remainder; a piece without \<open>=\<close> is skipped.
\<close>

definition split_first :: "char \<Rightarrow> string \<Rightarrow> (string \<times> string) option" where
  "split_first c s =
     (if c \<in> set s then Some (takeWhile (\<lambda>x. x \<noteq> c) s, tl (dropWhile (\<lambda>x. x \<noteq> c) s))
      else None)"

definition spec_cookie_step :: "cookie_jar \<Rightarrow> string \<Rightarrow> cookie_jar" where
  "spec_cookie_step acc piece =
     (case split_first CHR ''='' (trim piece) of
        None \<Rightarrow> acc
      | Some (key, val) \<Rightarrow> acc(key \<mapsto> val))"

definition spec_cookie_value :: "string \<Rightarrow> string \<Rightarrow> string option" where
  "spec_cookie_value cookieHeader k =
     foldl spec_cookie_step Map.empty (split_on CHR '';'' cookieHeader) k"

text \<open>The characters of a token on the wire: base64url text and the dot.\<close>

definition is_token_char :: "char \<Rightarrow> bool" where
  "is_token_char c \<longleftrightarrow> is_b64url c \<or> c = CHR ''.''"




section \<open>Concrete inputs\<close>

text \<open>
  A request to a path, with the given \<open>auth-token\<close> cookie (or none), and a verifier that
  knows one good token and one expired one.
\<close>

definition request_to :: "string \<Rightarrow> string option \<Rightarrow> next_request" where
  "request_to p c =
     \<lparr>nextUrl_pathname = p,
      request_url = \<lparr>origin = ''http://localhost:3000'', pathname = p, searchParams = []\<rparr>,
      cookie = (\<lambda>k. if k = ''auth-token'' then c else None)\<rparr>"

definition alice :: token_payload where
  "alice = \<lparr>claims = \<lparr>userId = ''u1'', email = ''alice@example.com'', name = Some ''Alice''\<rparr>,
            iat = 1000, expires = 87400\<rparr>"

definition example_verifier :: verifier where
  "example_verifier token =
     (if token = ''good'' then Inr alice
      else if token = ''expired'' then Inl Expired
      else Inl SignatureMismatch)"



text \<open>
  A small wire codec: the header is its own encoding, the one payload it knows is
  written \<open>claims\<close>, and the keyed hash keeps the base64url characters of the secret and
  the message.
\<close>

definition alice_user :: token_user where
  "alice_user = \<lparr>tu_id = ''u1'', tu_email = ''alice@example.com'', tu_name = Some ''Alice''\<rparr>"

definition example_codec :: wire_codec where
  "example_codec =
     \<lparr>enc_header = (\<lambda>a. a), dec_header = Some,
      enc_claims = (\<lambda>p. ''claims''),
      dec_claims = (\<lambda>s. if s = ''claims'' then Some alice else None),
      mac = (\<lambda>secret msg. filter is_b64url (secret @ msg))\<rparr>"

text \<open>A user table with one row, and the environments of the two handlers over it.\<close>

definition alice_row :: User where
  "alice_row =
     \<lparr>user_id = ''u1'', user_email = ''alice@example.com'', user_name = Some ''Alice'',
      user_createdAt = ''2024-01-01T00:00:00.000Z'',
      aspNetUser =
        Some \<lparr>asp_id = ''u1'', userName = ''alice@example.com'',
              normalizedUserName = ''ALICE@EXAMPLE.COM'', asp_email = ''alice@example.com'',
              normalizedEmail = ''ALICE@EXAMPLE.COM'', passwordHash = Some ''hash:wonderland'',
              securityStamp = Some ''stamp'', emailConfirmed = False, twoFactorEnabled = False,
              lockoutEnabled = True, accessFailedCount = 0\<rparr>\<rparr>"

definition example_login_env :: login_env where
  "example_login_env =
     \<lparr>isEmail = (\<lambda>s. CHR ''@'' \<in> set s),
      findUnique_email = (\<lambda>e. if e = ''alice@example.com'' then Some (Some alice_row) else Some None),
      bcrypt_compare = (\<lambda>pw h. h = ''hash:'' @ pw),
      sign = (\<lambda>p opts. Some ''HS256.claims.secretHS256claims''),
      node_env = Some ''production''\<rparr>"

definition login_body :: "string \<Rightarrow> string \<Rightarrow> json" where
  "login_body e p = JObj [(''email'', JStr e), (''password'', JStr p)]"




section \<open>Properties of the cookie parser\<close>

lemma split_on_no_sep: "c \<notin> set s \<Longrightarrow> split_on c s = [s]"
  by (induction s) auto

lemma split_on_append: "c \<notin> set a \<Longrightarrow> split_on c (a @ c # b) = a # split_on c b"
  by (induction a) auto

lemma dropWhile_hd: "s \<noteq> [] \<Longrightarrow> \<not> P (hd s) \<Longrightarrow> dropWhile P s = s"
  by (cases s) auto

lemma trim_id:
  assumes "s \<noteq> []" and "\<not> is_space (hd s)" and "\<not> is_space (last s)"
  shows "trim s = s"
proof -
  have front: "dropWhile is_space s = s"
    using assms(1,2) by (rule dropWhile_hd)
  have "\<not> is_space (hd (rev s))"
    using assms(1,3) by (simp add: hd_rev)
  then have rear: "dropWhile is_space (rev s) = rev s"
    using assms(1) by (intro dropWhile_hd) auto
  show ?thesis
    by (simp add: trim_def front rear)
qed

lemma cookie_step_other: "cookie_key piece \<noteq> k \<Longrightarrow> cookie_step acc piece k = acc k"
  by (auto simp: cookie_step_def cookie_key_def split: list.splits)

lemma foldl_cookie_step_other:
  "\<forall>piece \<in> set ps. cookie_key piece \<noteq> k \<Longrightarrow> foldl cookie_step acc ps k = acc k"
  by (induction ps arbitrary: acc) (auto simp: cookie_step_other)

lemma parse_cookies_absent:
  "\<forall>piece \<in> set (split_on CHR '';'' h). cookie_key piece \<noteq> k \<Longrightarrow> parse_cookies h k = None"
  by (simp add: parse_cookies_def foldl_cookie_step_other)

lemma token_char_facts:
  "is_token_char c \<Longrightarrow> c \<noteq> CHR '';'' \<and> c \<noteq> CHR ''='' \<and> \<not> is_space c"
  by (auto simp: is_token_char_def is_b64url_def is_space_def Let_def)

text \<open>A header with the one pair \<open>auth-token=<token>\<close> gives the token back whole.\<close>

lemma parse_single_cookie:
  assumes "list_all is_token_char tok" and "tok \<noteq> []"
  shows "parse_cookies (''auth-token='' @ tok) ''auth-token'' = Some tok"
proof -
  have nosemi: "CHR '';'' \<notin> set (''auth-token='' @ tok)"
    using assms(1) token_char_facts by (auto simp: list_all_iff)
  have noeq: "CHR ''='' \<notin> set tok"
    using assms(1) token_char_facts by (auto simp: list_all_iff)
  have "\<not> is_space (last tok)"
    using assms token_char_facts by (auto simp: list_all_iff)
  then have tr: "trim (''auth-token='' @ tok) = ''auth-token='' @ tok"
    using assms(2) by (intro trim_id) (auto simp: is_space_def)
  have sp: "split_on CHR ''='' (''auth-token='' @ tok) = [''auth-token'', tok]"
    using split_on_append [of "CHR ''=''" "''auth-token''" tok] split_on_no_sep [OF noeq]
    by simp
  show ?thesis
    unfolding parse_cookies_def split_on_no_sep [OF nosemi]
    by (simp only: foldl.simps cookie_step_def tr sp) simp
qed

text \<open>
  Claim C3. The claim says that each piece of the cookie header is split on its first
  \<open>=\<close> only, so that the header \<open>auth-token=a=b\<close> gives the value \<open>a=b\<close>, and that a
  malformed pair is skipped. The source splits on every \<open>=\<close> and keeps the first two
  pieces: on \<open>auth-token=a=b\<close> the value read is \<open>a\<close>. A piece without \<open>=\<close> is not skipped
  either: it writes \<open>undefined\<close> under its key, so a bare \<open>auth-token\<close> after a good pair
  removes the value.
\<close>

theorem cookie_value_cut_at_second_equals:
  "parse_cookies ''auth-token=a=b'' ''auth-token'' = Some ''a''
   \<and> parse_cookies ''auth-token=a=b'' ''auth-token'' \<noteq> Some ''a=b''
   \<and> parse_cookies ''auth-token=abc; auth-token'' ''auth-token'' = None"
  by (simp add: parse_cookies_def cookie_step_def trim_def is_space_def)


section \<open>Properties of the session extraction\<close>

lemma token_of_header_None:
  "parse_cookies h ''auth-token'' = None \<Longrightarrow> token_of_header (Some h) = None"
  by (simp add: token_of_header_def)

lemma token_of_header_Some:
  "h \<noteq> [] \<Longrightarrow> parse_cookies h ''auth-token'' = Some t \<Longrightarrow> t \<noteq> [] \<Longrightarrow>
   token_of_header (Some h) = Some t"
  by (simp add: token_of_header_def)

lemma extract_no_token:
  assumes "token_of_header c = None"
  shows "getUserIdFromToken v c = None" and "getUserIdFromTokenSync v c = None"
    and "getToken v c = None"
  using assms
  by (simp_all add: getUserIdFromToken_def getUserIdFromTokenSync_def getToken_def
      getUserIdFromToken_try_def getToken_try_def catch_null_def)

lemma extract_rejected:
  assumes "token_of_header c = Some t" and "v t = Inl e"
  shows "getUserIdFromToken v c = None" and "getUserIdFromTokenSync v c = None"
    and "getToken v c = None"
  using assms
  by (simp_all add: getUserIdFromToken_def getUserIdFromTokenSync_def getToken_def
      getUserIdFromToken_try_def getToken_try_def catch_null_def)

lemma extract_accepted:
  assumes "token_of_header c = Some t" and "v t = Inr payload"
  shows "getUserIdFromToken v c = Some (userId (claims payload))"
    and "getUserIdFromTokenSync v c = Some (userId (claims payload))"
    and "getToken v c = Some payload"
  using assms
  by (simp_all add: getUserIdFromToken_def getUserIdFromTokenSync_def getToken_def
      getUserIdFromToken_try_def getToken_try_def catch_null_def)

lemma extract_rejected_parsed:
  assumes "parse_cookies h ''auth-token'' = Some t" and "v t = Inl e"
  shows "getUserIdFromToken v (Some h) = None" and "getUserIdFromTokenSync v (Some h) = None"
    and "getToken v (Some h) = None"
proof -
  have "token_of_header (Some h) = None \<or> token_of_header (Some h) = Some t"
    using assms(1) by (simp add: token_of_header_def)
  then show "getUserIdFromToken v (Some h) = None" and "getUserIdFromTokenSync v (Some h) = None"
    and "getToken v (Some h) = None"
    using extract_no_token [of "Some h" v] extract_rejected [of "Some h" t v e] assms(2)
    by auto
qed

lemma example_token:
  "createToken example_codec ''secret'' 1000 alice_user = ''HS256.claims.secretHS256claims''"
  by (simp add: createToken_def jwt_sign_def example_codec_def is_b64url_def alice_user_def)

lemma example_wire_ok: "wire_ok example_codec ''secret'' alice"
  by (simp add: wire_ok_def example_codec_def is_b64url_def)

text \<open>
  What does hold, whatever the two libraries do: the three functions return \<open>null\<close> when
  the request has no cookie header, when no piece of the header has the key
  \<open>auth-token\<close>, and when the verifier rejects the value that the parser of the source
  has read for \<open>auth-token\<close>.
\<close>

lemma extraction_none_on_read_value:
  assumes "cookieHeader = None
     \<or> (\<exists>h. cookieHeader = Some h
            \<and> (\<forall>piece \<in> set (split_on CHR '';'' h). cookie_key piece \<noteq> ''auth-token''))
     \<or> (\<exists>h t. cookieHeader = Some h \<and> parse_cookies h ''auth-token'' = Some t
            \<and> jose t = Inl Malformed \<and> jsonwebtoken t = Inl Malformed)
     \<or> (\<exists>h t. cookieHeader = Some h \<and> parse_cookies h ''auth-token'' = Some t
            \<and> jose t = Inl Expired \<and> jsonwebtoken t = Inl Expired)"
  shows "getUserIdFromToken jose cookieHeader = None
     \<and> getUserIdFromTokenSync jsonwebtoken cookieHeader = None
     \<and> getToken jose cookieHeader = None"
proof -
  consider (none) "cookieHeader = None"
    | (absent) h where "cookieHeader = Some h"
        "\<forall>piece \<in> set (split_on CHR '';'' h). cookie_key piece \<noteq> ''auth-token''"
    | (rejected) h t e where "cookieHeader = Some h" "parse_cookies h ''auth-token'' = Some t"
        "jose t = Inl e" "jsonwebtoken t = Inl e"
    using assms by blast
  then show ?thesis
  proof cases
    case none
    then have "token_of_header cookieHeader = None"
      by (simp add: token_of_header_def)
    then show ?thesis
      by (simp add: extract_no_token)
  next
    case absent
    then have "token_of_header cookieHeader = None"
      by (simp add: token_of_header_None parse_cookies_absent)
    then show ?thesis
      by (simp add: extract_no_token)
  next
    case rejected
    then show ?thesis
      by (simp add: extract_rejected_parsed)
  qed
qed

text \<open>
  Claim C2. The claim says that the three extraction functions return \<open>null\<close> whenever
  the \<open>auth-token\<close> value of the cookie header is not a well-formed token. The value of
  the pair \<open>auth-token=HS256.claims.secretHS256claims=.x\<close> is everything after its first
  \<open>=\<close>; it has four segments and is rejected as malformed. The source cuts it at the
  second \<open>=\<close>, hands the valid token in front of it to the verifier, and all three
  functions return an identity.
\<close>

theorem malformed_value_yields_identity:
  "spec_cookie_value ''auth-token=HS256.claims.secretHS256claims=.x'' ''auth-token''
     = Some ''HS256.claims.secretHS256claims=.x''
   \<and> jwt_verify example_codec ''secret'' 5000 ''HS256.claims.secretHS256claims=.x''
     = Inl Malformed
   \<and> parse_cookies ''auth-token=HS256.claims.secretHS256claims=.x'' ''auth-token''
     = Some ''HS256.claims.secretHS256claims''
   \<and> getUserIdFromToken (jwt_verify example_codec ''secret'' 5000)
        (Some ''auth-token=HS256.claims.secretHS256claims=.x'') = Some ''u1''
   \<and> getUserIdFromTokenSync (jwt_verify example_codec ''secret'' 5000)
        (Some ''auth-token=HS256.claims.secretHS256claims=.x'') = Some ''u1''
   \<and> getToken (jwt_verify example_codec ''secret'' 5000)
        (Some ''auth-token=HS256.claims.secretHS256claims=.x'') = Some alice"
proof -
  let ?h = "''auth-token=HS256.claims.secretHS256claims=.x''"
  let ?v = "jwt_verify example_codec ''secret'' 5000"
  have spec: "spec_cookie_value ?h ''auth-token'' = Some ''HS256.claims.secretHS256claims=.x''"
    by (simp add: spec_cookie_value_def spec_cookie_step_def split_first_def trim_def is_space_def)
  have whole: "?v ''HS256.claims.secretHS256claims=.x'' = Inl Malformed"
    by (simp add: jwt_verify_def)
  have read: "parse_cookies ?h ''auth-token'' = Some ''HS256.claims.secretHS256claims''"
    by (simp add: parse_cookies_def cookie_step_def trim_def is_space_def)
  have front: "?v ''HS256.claims.secretHS256claims'' = Inr alice"
    by (simp add: jwt_verify_def example_codec_def is_b64url_def alice_def)
  have header: "token_of_header (Some ?h) = Some ''HS256.claims.secretHS256claims''"
    using read by (intro token_of_header_Some) simp_all
  show ?thesis
    using spec whole read front
      extract_accepted [OF header, of "jwt_verify example_codec ''secret'' 5000" alice]
    by (simp add: alice_def)
qed


section \<open>Properties of the token codec\<close>

lemma b64url_no_dot: "list_all is_b64url s \<Longrightarrow> CHR ''.'' \<notin> set s"
  by (auto simp: list_all_iff is_b64url_def Let_def)

lemma split_three:
  assumes "CHR ''.'' \<notin> set h" and "CHR ''.'' \<notin> set p" and "CHR ''.'' \<notin> set s"
  shows "split_on CHR ''.'' (h @ ''.'' @ p @ ''.'' @ s) = [h, p, s]"
  using split_on_append [OF assms(1), of "p @ ''.'' @ s"] split_on_append [OF assms(2), of s]
    split_on_no_sep [OF assms(3)]
  by simp

lemma jwt_verify_signed:
  assumes "wire_ok K secret payload"
  shows "jwt_verify K secret now
           (enc_header K ''HS256'' @ ''.'' @ enc_claims K payload @ ''.'' @
            mac K secret (enc_header K ''HS256'' @ ''.'' @ enc_claims K payload)) =
         (if expires payload \<le> now then Inl Expired else Inr payload)"
proof -
  let ?h = "enc_header K ''HS256''" and ?p = "enc_claims K payload"
  let ?s = "mac K secret (?h @ ''.'' @ ?p)"
  have "split_on CHR ''.'' (?h @ ''.'' @ ?p @ ''.'' @ ?s) = [?h, ?p, ?s]"
    using assms by (intro split_three b64url_no_dot) (simp_all add: wire_ok_def)
  moreover have "dec_header K ?h = Some ''HS256''" "dec_claims K ?p = Some payload"
    using assms by (simp_all add: wire_ok_def)
  ultimately show ?thesis
    by (simp add: jwt_verify_def)
qed

lemma createToken_wire:
  "createToken K secret t0 user =
     (let payload = \<lparr>claims = \<lparr>userId = tu_id user, email = tu_email user, name = tu_name user\<rparr>,
                     iat = t0, expires = t0 + 86400\<rparr>
      in enc_header K ''HS256'' @ ''.'' @ enc_claims K payload @ ''.'' @
         mac K secret (enc_header K ''HS256'' @ ''.'' @ enc_claims K payload))"
  by (simp add: createToken_def jwt_sign_def Let_def)

lemma createToken_chars:
  assumes "wire_ok K secret \<lparr>claims = \<lparr>userId = tu_id user, email = tu_email user, name = tu_name user\<rparr>,
                     iat = t0, expires = t0 + 86400\<rparr>"
  shows "list_all is_token_char (createToken K secret t0 user)"
    and "createToken K secret t0 user \<noteq> []"
  using assms
  by (auto simp: createToken_wire wire_ok_def list_all_iff is_token_char_def Let_def)

text \<open>
  Claim C1. For every user \<open>{id, email, name?}\<close> and every secret, the token
  \<open>createToken\<close> makes at the time \<open>t0\<close> verifies with the same secret at every time
  before \<open>t0 + 24h\<close>, and the verification returns the claims (with \<open>iat\<close> and \<open>exp\<close>);
  \<open>getToken\<close>, \<open>getUserIdFromToken\<close> and \<open>getUserIdFromTokenSync\<close> accept a request that
  carries it as the \<open>auth-token\<close> cookie. One second before \<open>t0 + 24h\<close> it is valid, one
  second after it is rejected as expired. Times are whole seconds, as both libraries
  read the clock. The premise is that header and payload decode to what was encoded
  and that the segments are base64url text.
\<close>

theorem token_round_trip:
  assumes "payload = \<lparr>claims = \<lparr>userId = tu_id user, email = tu_email user, name = tu_name user\<rparr>,
                       iat = t0, expires = t0 + 24 * 60 * 60\<rparr>"
    and "wire_ok K secret payload"
    and "token = createToken K secret t0 user"
  shows "(now < t0 + 24 * 60 * 60 \<longrightarrow>
            jwt_verify K secret now token = Inr payload
            \<and> getToken (jwt_verify K secret now) (Some (''auth-token='' @ token)) = Some payload
            \<and> getUserIdFromToken (jwt_verify K secret now) (Some (''auth-token='' @ token))
                = Some (tu_id user)
            \<and> getUserIdFromTokenSync (jwt_verify K secret now) (Some (''auth-token='' @ token))
                = Some (tu_id user))
     \<and> jwt_verify K secret (t0 + 24 * 60 * 60 - 1) token = Inr payload
     \<and> jwt_verify K secret (t0 + 24 * 60 * 60 + 1) token = Inl Expired
     \<and> getToken (jwt_verify K secret (t0 + 24 * 60 * 60 + 1)) (Some (''auth-token='' @ token)) = None"
proof -
  have wire: "wire_ok K secret \<lparr>claims = \<lparr>userId = tu_id user, email = tu_email user, name = tu_name user\<rparr>,
                     iat = t0, expires = t0 + 86400\<rparr>"
    using assms(1,2) by simp
  have verify: "jwt_verify K secret n token = (if t0 + 86400 \<le> n then Inl Expired else Inr payload)" for n
    using jwt_verify_signed [OF wire, of n] assms(1,3) by (simp add: createToken_wire Let_def)
  have chars: "list_all is_token_char token" and ne: "token \<noteq> []"
    using createToken_chars [OF wire] assms(3) by simp_all
  have header: "token_of_header (Some (''auth-token='' @ token)) = Some token"
    using parse_single_cookie [OF chars ne] ne by (intro token_of_header_Some) simp_all
  have uid: "userId (claims payload) = tu_id user"
    using assms(1) by simp
  show ?thesis
    using extract_accepted [OF header, of "jwt_verify K secret now" payload]
      extract_rejected [OF header, of "jwt_verify K secret (t0 + 24 * 60 * 60 + 1)" Expired]
    by (simp add: verify uid)
qed

theorem token_round_trip_witness:
  "jwt_verify example_codec ''secret'' 5000 ''HS256.claims.secretHS256claims'' = Inr alice
   \<and> getToken (jwt_verify example_codec ''secret'' 5000)
        (Some ''auth-token=HS256.claims.secretHS256claims'') = Some alice
   \<and> getUserIdFromTokenSync (jwt_verify example_codec ''secret'' 5000)
        (Some ''auth-token=HS256.claims.secretHS256claims'') = Some ''u1''
   \<and> jwt_verify example_codec ''secret'' 87399 ''HS256.claims.secretHS256claims'' = Inr alice
   \<and> jwt_verify example_codec ''secret'' 87401 ''HS256.claims.secretHS256claims'' = Inl Expired"
  using token_round_trip [of alice alice_user 1000 example_codec "''secret''"
      "''HS256.claims.secretHS256claims''" 5000]
    example_token example_wire_ok
  by (simp add: alice_def alice_user_def)


section \<open>Properties of the middleware\<close>

lemma isPublicRoute_in_iff:
  "isPublicRoute_in pub p \<longleftrightarrow> (\<exists>route \<in> set pub. p = route \<or> (\<exists>rest. p = route @ ''/'' @ rest))"
  by (auto simp: isPublicRoute_in_def list_ex_iff startsWith_def prefix_def)



lemma middleware_public:
  "isPublicRoute_in pub (nextUrl_pathname req) \<Longrightarrow> middleware_with pub prot v req = NextResponse_next"
  by (simp add: middleware_with_def)

lemma middleware_unlisted:
  "\<not> isProtectedRoute_in prot (nextUrl_pathname req) \<Longrightarrow>
   middleware_with pub prot v req = NextResponse_next"
  by (simp add: middleware_with_def Let_def)










text \<open>
  Claim C5. A path is public exactly when it equals an entry of the public list or
  starts with an entry followed by \<open>/\<close>. The middleware tests this first: a public path
  is let through whatever the cookies, the verifier and the protected list are, also
  when the path matches a protected prefix as well; a path in neither list is let
  through too. The lists are arguments here, and \<open>middleware\<close> is the function with
  the two lists of the source.
\<close>

theorem public_routes_first:
  "(isPublicRoute_in pub p \<longleftrightarrow>
      (\<exists>route \<in> set pub. p = route \<or> (\<exists>rest. p = route @ ''/'' @ rest)))
   \<and> (isPublicRoute_in pub (nextUrl_pathname req) \<longrightarrow>
        middleware_with pub prot v req = NextResponse_next)
   \<and> (\<not> isPublicRoute_in pub (nextUrl_pathname req)
        \<and> \<not> isProtectedRoute_in prot (nextUrl_pathname req) \<longrightarrow>
        middleware_with pub prot v req = NextResponse_next)
   \<and> middleware = middleware_with publicRoutes protectedRoutes"
  using isPublicRoute_in_iff [of pub p] middleware_public [of pub req prot v]
    middleware_unlisted [of prot req pub v]
  by (simp add: middleware_def)

theorem public_routes_first_witness:
  "isPublicRoute_in [''/dashboard/help''] ''/dashboard/help/faq''
   \<and> isProtectedRoute_in [''/dashboard''] ''/dashboard/help/faq''
   \<and> middleware_with [''/dashboard/help''] [''/dashboard''] example_verifier
        (request_to ''/dashboard/help/faq'' (Some ''expired'')) = NextResponse_next
   \<and> middleware example_verifier (request_to ''/login/reset'' None) = NextResponse_next
   \<and> middleware example_verifier (request_to ''/about'' None) = NextResponse_next"
  using public_routes_first [of "[''/dashboard/help'']" "''/dashboard/help/faq''"
      "request_to ''/dashboard/help/faq'' (Some ''expired'')" "[''/dashboard'']" example_verifier]
    public_routes_first [of publicRoutes "''/login/reset''" "request_to ''/login/reset'' None"
      protectedRoutes example_verifier]
    public_routes_first [of publicRoutes "''/about''" "request_to ''/about'' None" protectedRoutes
      example_verifier]
  by (simp add: request_to_def isPublicRoute_in_def isProtectedRoute_in_def startsWith_def
      publicRoutes_def protectedRoutes_def)

text \<open>
  Claim C6. The claim says that every failed authentication on a protected path is
  redirected to the login page with the requested path in the query parameter
  \<open>redirect\<close>. The branch for a missing cookie does so; the \<open>catch\<close> branch, taken when
  the cookie is there and the verification fails, redirects to \<open>/login\<close> with no query
  at all. Evaluated on \<open>/dashboard\<close> with an expired token, and with no cookie.
\<close>

theorem failed_verification_drops_redirect:
  "middleware example_verifier (request_to ''/dashboard'' (Some ''expired'')) =
     \<lparr>kind = Redirect \<lparr>origin = ''http://localhost:3000'', pathname = ''/login'',
                       searchParams = []\<rparr>,
      headers = [], deleted_cookies = [''auth-token'']\<rparr>
   \<and> middleware example_verifier (request_to ''/dashboard'' None) =
     \<lparr>kind = Redirect \<lparr>origin = ''http://localhost:3000'', pathname = ''/login'',
                       searchParams = [(''redirect'', ''/dashboard'')]\<rparr>,
      headers = [], deleted_cookies = []\<rparr>"
  by (simp add: middleware_def middleware_with_def request_to_def example_verifier_def
      isPublicRoute_in_def isProtectedRoute_in_def publicRoutes_def protectedRoutes_def
      startsWith_def NextResponse_redirect_def new_URL_def middleware_catch_def)




section \<open>Properties of the login and registration handlers\<close>

lemma login_after_parse:
  assumes "loginSchema_parse (isEmail E) b = Inr (em, password)"
  shows "login_POST E (Some b) =
     (case findUnique_email E (toLowerCase em) of
        None \<Rightarrow> NextResponse_json (JObj [(''error'', JStr ''Internal server error'')]) 500
      | Some None \<Rightarrow> NextResponse_json (JObj [(''error'', JStr ''Invalid email or password'')]) 401
      | Some (Some user) \<Rightarrow>
     (case aspNetUser user of
        None \<Rightarrow> NextResponse_json (JObj [(''error'', JStr ''Invalid email or password'')]) 401
      | Some asp \<Rightarrow>
          if \<not> bcrypt_compare E password (case passwordHash asp of None \<Rightarrow> [] | Some h \<Rightarrow> h)
          then NextResponse_json (JObj [(''error'', JStr ''Invalid email or password'')]) 401
          else
            (case sign E \<lparr>userId = user_id user, email = user_email user, name = user_name user\<rparr>
                    \<lparr>expiresIn = 86400, algorithm = ''HS256''\<rparr> of
               None \<Rightarrow> NextResponse_json (JObj [(''error'', JStr ''Internal server error'')]) 500
             | Some token \<Rightarrow>
                 \<lparr>status = 200,
                  body = JObj [(''message'', JStr ''Login successful''), (''user'', user_json user)],
                  cookies_set =
                    [\<lparr>cookie_name = ''auth-token'', cookie_value = token, httpOnly = True,
                      secure = (node_env E = Some ''production''), sameSite = ''strict'',
                      maxAge = 86400, path = ''/''\<rparr>]\<rparr>)))"
  using assms
  by (simp add: login_POST_def login_try_def handler_catch_def NextResponse_json_def
      split: option.splits)

text \<open>A response with status 200 comes from the last branch of the handler only.\<close>

lemma login_200:
  assumes "status (login_POST E rq) = 200"
  shows "\<exists>b em password user asp token.
      rq = Some b \<and> loginSchema_parse (isEmail E) b = Inr (em, password)
      \<and> findUnique_email E (toLowerCase em) = Some (Some user)
      \<and> aspNetUser user = Some asp
      \<and> bcrypt_compare E password (case passwordHash asp of None \<Rightarrow> [] | Some h \<Rightarrow> h)
      \<and> sign E \<lparr>userId = user_id user, email = user_email user, name = user_name user\<rparr>
                \<lparr>expiresIn = 86400, algorithm = ''HS256''\<rparr> = Some token
      \<and> login_POST E rq =
           \<lparr>status = 200,
            body = JObj [(''message'', JStr ''Login successful''), (''user'', user_json user)],
            cookies_set =
              [\<lparr>cookie_name = ''auth-token'', cookie_value = token, httpOnly = True,
                secure = (node_env E = Some ''production''), sameSite = ''strict'',
                maxAge = 86400, path = ''/''\<rparr>]\<rparr>"
  using assms
  by (auto simp: login_POST_def login_try_def handler_catch_def NextResponse_json_def
      split: option.splits sum.splits handler_error.splits prod.splits if_splits)











lemma example_login_parse:
  "loginSchema_parse (isEmail example_login_env) (login_body ''bob@example.com'' ''hunter2'')
     = Inr (''bob@example.com'', ''hunter2'')"
  "loginSchema_parse (isEmail example_login_env) (login_body ''Alice@Example.com'' ''hunter2'')
     = Inr (''Alice@Example.com'', ''hunter2'')"
  "loginSchema_parse (isEmail example_login_env) (login_body ''Alice@Example.com'' ''wonderland'')
     = Inr (''Alice@Example.com'', ''wonderland'')"
  by (simp_all add: loginSchema_parse_def login_body_def zod_string_def obj_get_def
      example_login_env_def)

lemma example_lower:
  "toLowerCase ''Alice@Example.com'' = ''alice@example.com''"
  "toLowerCase ''bob@example.com'' = ''bob@example.com''"
  by code_simp+

lemma example_known:
  "findUnique_email example_login_env (toLowerCase ''Alice@Example.com'') = Some (Some alice_row)"
  "findUnique_email example_login_env (toLowerCase ''bob@example.com'') = Some None"
  by (simp_all add: example_lower example_login_env_def)

lemma example_login:
  "login_POST example_login_env (Some (login_body ''Alice@Example.com'' ''wonderland'')) =
     \<lparr>status = 200,
      body = JObj [(''message'', JStr ''Login successful''),
                   (''user'', JObj [(''id'', JStr ''u1''), (''email'', JStr ''alice@example.com''),
                                    (''name'', JStr ''Alice''),
                                    (''createdAt'', JStr ''2024-01-01T00:00:00.000Z'')])],
      cookies_set =
        [\<lparr>cookie_name = ''auth-token'', cookie_value = ''HS256.claims.secretHS256claims'',
          httpOnly = True, secure = True, sameSite = ''strict'', maxAge = 86400, path = ''/''\<rparr>]\<rparr>"
  unfolding login_after_parse [OF example_login_parse(3)]
  by (simp add: example_lower example_login_env_def alice_row_def user_json_def)


text \<open>
  Claim C7. A login request whose body passes the validation gets the same response,
  status 401 with the body \<open>{error: 'Invalid email or password'}\<close> and no cookie, when
  no user has the e-mail address, when the user has no credential row, and when the
  password does not verify against the stored hash.
\<close>

theorem login_bad_credentials_uniform:
  assumes "loginSchema_parse (isEmail E) b = Inr (em, password)"
    and "findUnique_email E (toLowerCase em) = Some None
       \<or> (\<exists>user. findUnique_email E (toLowerCase em) = Some (Some user) \<and> aspNetUser user = None)
       \<or> (\<exists>user asp. findUnique_email E (toLowerCase em) = Some (Some user)
             \<and> aspNetUser user = Some asp
             \<and> \<not> bcrypt_compare E password (case passwordHash asp of None \<Rightarrow> [] | Some h \<Rightarrow> h))"
  shows "login_POST E (Some b) =
           \<lparr>status = 401, body = JObj [(''error'', JStr ''Invalid email or password'')],
            cookies_set = []\<rparr>"
  using assms(2) unfolding login_after_parse [OF assms(1)]
  by (auto simp: NextResponse_json_def)

theorem login_bad_credentials_uniform_witness:
  "login_POST example_login_env (Some (login_body ''bob@example.com'' ''hunter2'')) =
     \<lparr>status = 401, body = JObj [(''error'', JStr ''Invalid email or password'')], cookies_set = []\<rparr>
   \<and> login_POST example_login_env (Some (login_body ''Alice@Example.com'' ''hunter2'')) =
     \<lparr>status = 401, body = JObj [(''error'', JStr ''Invalid email or password'')], cookies_set = []\<rparr>
   \<and> status (login_POST example_login_env (Some (login_body ''Alice@Example.com'' ''wonderland''))) = 200"
proof -
  have wrong: "\<exists>user asp.
      findUnique_email example_login_env (toLowerCase ''Alice@Example.com'') = Some (Some user)
      \<and> aspNetUser user = Some asp
      \<and> \<not> bcrypt_compare example_login_env ''hunter2''
             (case passwordHash asp of None \<Rightarrow> [] | Some h \<Rightarrow> h)"
    unfolding example_known by (simp add: alice_row_def example_login_env_def)
  show ?thesis
    using login_bad_credentials_uniform [OF example_login_parse(1)] example_known(2)
      login_bad_credentials_uniform [OF example_login_parse(2)] wrong example_login
    by simp
qed

text \<open>
  Claim C8. Every response of the login handler with status 200 sets one cookie: its
  name is \<open>auth-token\<close>, its value the token signed for the user that was found, with
  \<open>httpOnly\<close>, \<open>sameSite\<close> strict, the path \<open>/\<close>, \<open>maxAge\<close> 86400 seconds, and \<open>secure\<close>
  exactly when \<open>NODE_ENV\<close> is \<open>production\<close>.
\<close>

theorem login_sets_cookie:
  assumes "status (login_POST E rq) = 200"
  shows "\<exists>b em password user token.
      rq = Some b \<and> loginSchema_parse (isEmail E) b = Inr (em, password)
      \<and> findUnique_email E (toLowerCase em) = Some (Some user)
      \<and> sign E \<lparr>userId = user_id user, email = user_email user, name = user_name user\<rparr>
             \<lparr>expiresIn = 24 * 60 * 60, algorithm = ''HS256''\<rparr> = Some token
      \<and> cookies_set (login_POST E rq) =
          [\<lparr>cookie_name = ''auth-token'', cookie_value = token, httpOnly = True,
            secure = (node_env E = Some ''production''), sameSite = ''strict'',
            maxAge = 86400, path = ''/''\<rparr>]"
proof -
  obtain b em password user token where
    "rq = Some b" "loginSchema_parse (isEmail E) b = Inr (em, password)"
    "findUnique_email E (toLowerCase em) = Some (Some user)"
    "sign E \<lparr>userId = user_id user, email = user_email user, name = user_name user\<rparr>
            \<lparr>expiresIn = 86400, algorithm = ''HS256''\<rparr> = Some token"
    "login_POST E rq =
           \<lparr>status = 200,
            body = JObj [(''message'', JStr ''Login successful''), (''user'', user_json user)],
            cookies_set =
              [\<lparr>cookie_name = ''auth-token'', cookie_value = token, httpOnly = True,
                secure = (node_env E = Some ''production''), sameSite = ''strict'',
                maxAge = 86400, path = ''/''\<rparr>]\<rparr>"
    using login_200 [OF assms] by blast
  then have "rq = Some b \<and> loginSchema_parse (isEmail E) b = Inr (em, password)
      \<and> findUnique_email E (toLowerCase em) = Some (Some user)
      \<and> sign E \<lparr>userId = user_id user, email = user_email user, name = user_name user\<rparr>
             \<lparr>expiresIn = 24 * 60 * 60, algorithm = ''HS256''\<rparr> = Some token
      \<and> cookies_set (login_POST E rq) =
          [\<lparr>cookie_name = ''auth-token'', cookie_value = token, httpOnly = True,
            secure = (node_env E = Some ''production''), sameSite = ''strict'',
            maxAge = 86400, path = ''/''\<rparr>]"
    by simp
  then show ?thesis
    by blast
qed

theorem login_sets_cookie_witness:
  "status (login_POST example_login_env (Some (login_body ''Alice@Example.com'' ''wonderland''))) = 200
   \<and> cookies_set (login_POST example_login_env (Some (login_body ''Alice@Example.com'' ''wonderland''))) =
       [\<lparr>cookie_name = ''auth-token'', cookie_value = ''HS256.claims.secretHS256claims'',
         httpOnly = True, secure = True, sameSite = ''strict'', maxAge = 86400, path = ''/''\<rparr>]
   \<and> secure (hd (cookies_set (login_POST (example_login_env\<lparr>node_env := Some ''development''\<rparr>)
         (Some (login_body ''Alice@Example.com'' ''wonderland''))))) = False"
proof -
  let ?rq = "Some (login_body ''Alice@Example.com'' ''wonderland'')"
  have ok: "status (login_POST example_login_env ?rq) = 200"
    by (simp add: example_login)
  have parse': "loginSchema_parse (isEmail (example_login_env\<lparr>node_env := Some ''development''\<rparr>))
      (login_body ''Alice@Example.com'' ''wonderland'') = Inr (''Alice@Example.com'', ''wonderland'')"
    using example_login_parse(3) by simp
  have ok': "status (login_POST (example_login_env\<lparr>node_env := Some ''development''\<rparr>) ?rq) = 200"
    unfolding login_after_parse [OF parse'] using example_known(1)
    by (simp add: alice_row_def example_login_env_def)
  show ?thesis
    using login_sets_cookie [OF ok] login_sets_cookie [OF ok'] ok
    by (auto simp: example_login_env_def)
qed



end
